theory Spec2Isabelle
  imports Complex_Main "HOL-Library.Sublist"
begin

section \<open>Interval-related respiration analysis: \<open>neurokit2/rsp/rsp_intervalrelated.py\<close>\<close>

text \<open>
  The module has two functions, \<open>rsp_intervalrelated\<close> and its helper
  \<open>_rsp_intervalrelated_formatinput\<close>. Both are embedded below, together with the small
  part of pandas and numpy they call. Floating-point numbers are abstracted to the reals,
  extended by the one special value the code can produce by itself (\<open>nan\<close>, the mean of an
  empty column); rounding is not modelled.
\<close>

subsection \<open>Values\<close>

datatype pyfloat = NaN | Num real

text \<open>A row or column label of a pandas table: an integer or a string.\<close>

datatype label = IntLabel int | StrLabel string

text \<open>
  The exceptions that can leave the module. \<open>ValueError\<close> is raised by the module itself,
  \<open>KeyError\<close> by a subscript on a table or mapping that has no such key,
  \<open>UnboundLocalError\<close> by reading a local variable that was never assigned;
  \<open>CollaboratorError\<close> stands for whatever the imported \<open>rsp_rrv\<close> raises.
  The module names no error kinds of its own. A missing or ambiguous column is reported
  by a \<open>ValueError\<close> whose message names the column; a failure of \<open>rsp_rrv\<close> is its own
  exception, or the \<open>KeyError\<close> of the first key its result lacks; an input of
  another type ends in the \<open>UnboundLocalError\<close> of the \<open>return\<close> statement.
\<close>

datatype error =
    ValueError string
  | KeyError string
  | UnboundLocalError string
  | CollaboratorError string

text \<open>
  A \<open>DataFrame\<close> of the input: its columns in order, each a name and its values.
  pandas allows several columns of one name, and so does the list.
\<close>

type_synonym frame = "(string \<times> real list) list"

text \<open>A Python \<open>dict\<close> from feature names to floats, in insertion order.\<close>

type_synonym featurerow = "(string \<times> pyfloat) list"

text \<open>The \<open>DataFrame\<close> that is returned: column labels, row labels, and the rows.\<close>

record table =
  col_labels :: "label list"
  row_labels :: "label list"
  cells :: "pyfloat list list"

text \<open>What \<open>data\<close> can be: a \<open>DataFrame\<close>, a \<open>dict\<close> of them, or any other object.\<close>

datatype pyinput =
    DataFrame frame
  | Dict "(label \<times> frame) list"
  | Other

text \<open>
  The state outside a call: the \<open>dict\<close> object created once for the default of the
  parameter \<open>output\<close> of \<open>_rsp_intervalrelated_formatinput\<close>, and the calls of
  \<open>rsp_rrv\<close> made so far, with their arguments.
\<close>

record world =
  default_output :: featurerow
  rrv_calls :: "(frame \<times> int) list"

text \<open>
  \<open>rsp_rrv\<close> is imported from a module that is not part of the sources at hand, so it is
  a parameter: a function of the recording and the sampling rate that raises or returns
  a mapping from metric names to values that \<open>float\<close> accepts.
\<close>

type_synonym rrv_fun = "frame \<Rightarrow> int \<Rightarrow> error + featurerow"

subsection \<open>Python, numpy and pandas primitives\<close>

text \<open>\<open>p in s\<close> on strings: \<open>p\<close> occurs in \<open>s\<close> as a contiguous run.\<close>

fun str_contains :: "string \<Rightarrow> string \<Rightarrow> bool" where
  "str_contains p [] = (p = [])"
| "str_contains p (c # cs) = (prefix p (c # cs) \<or> str_contains p cs)"

text \<open>\<open>d[k] = v\<close>: an existing key keeps its place, a new one goes last.\<close>

fun dict_set :: "('k \<times> 'v) list \<Rightarrow> 'k \<Rightarrow> 'v \<Rightarrow> ('k \<times> 'v) list" where
  "dict_set [] k v = [(k, v)]"
| "dict_set ((k', v') # d) k v =
     (if k' = k then (k, v) # d else (k', v') # dict_set d k v)"

text \<open>\<open>numpy.mean\<close> of the values of an array: \<open>nan\<close> when there are none.\<close>

definition np_mean :: "real list \<Rightarrow> pyfloat" where
  "np_mean xs = (if xs = [] then NaN else Num (sum_list xs / real (length xs)))"

text \<open>
  The values under a column name, as far as a mean can see them: with several columns of
  that name pandas hands back all of them as a two-dimensional array, whose mean runs
  over every entry.
\<close>

definition column_values :: "frame \<Rightarrow> string \<Rightarrow> real list" where
  "column_values df name = concat (map snd (filter (\<lambda>c. fst c = name) df))"

text \<open>\<open>df[name].values\<close>: \<open>KeyError\<close> when no column has that name.\<close>

definition getitem :: "frame \<Rightarrow> string \<Rightarrow> error + real list" where
  "getitem df name =
     (if name \<in> set (map fst df) then Inr (column_values df name)
      else Inl (KeyError name))"

text \<open>\<open>str\<close> of an integer, for \<open>add_prefix\<close> on an integer label.\<close>

fun digits :: "nat \<Rightarrow> string" where
  "digits n =
     (if n < 10 then [char_of (48 + n)]
      else digits (n div 10) @ [char_of (48 + n mod 10)])"

declare digits.simps [simp del]

definition str_label :: "label \<Rightarrow> string" where
  "str_label l =
     (case l of
        StrLabel s \<Rightarrow> s
      | IntLabel i \<Rightarrow> (if i < 0 then CHR ''-'' # digits (nat (- i)) else digits (nat i)))"

definition empty_table :: table where
  "empty_table = \<lparr>col_labels = [], row_labels = [], cells = []\<rparr>"

text \<open>
  \<open>DataFrame.from_dict(d, orient="index")\<close> for a \<open>dict\<close> of scalars: one row per key,
  in one column labelled \<open>0\<close>. An empty \<open>dict\<close> gives the empty table.
\<close>

definition from_dict_index_scalars :: "featurerow \<Rightarrow> table" where
  "from_dict_index_scalars d =
     (if d = [] then empty_table
      else \<lparr>col_labels = [IntLabel 0],
            row_labels = map (\<lambda>kv. StrLabel (fst kv)) d,
            cells = map (\<lambda>kv. [snd kv]) d\<rparr>)"

text \<open>The keys of a list of rows, each once, in the order of their first appearance.\<close>

fun first_seen :: "'a list \<Rightarrow> 'a list \<Rightarrow> 'a list" where
  "first_seen seen [] = []"
| "first_seen seen (x # xs) =
     (if x \<in> set seen then first_seen seen xs else x # first_seen (x # seen) xs)"

text \<open>
  \<open>DataFrame.from_dict(d, orient="index")\<close> for a \<open>dict\<close> of \<open>dict\<close>s: one row per outer
  key in the order of the \<open>dict\<close>, one column per inner key, \<open>nan\<close> where a row
  lacks a column. An empty \<open>dict\<close> gives the empty table.
\<close>

definition from_dict_index_nested :: "(label \<times> featurerow) list \<Rightarrow> table" where
  "from_dict_index_nested d =
     (let cols = first_seen [] (concat (map (\<lambda>kr. map fst (snd kr)) d))
      in \<lparr>col_labels = map StrLabel cols,
          row_labels = map fst d,
          cells = map (\<lambda>kr. map (\<lambda>c. case map_of (snd kr) c of
                                          None \<Rightarrow> NaN | Some v \<Rightarrow> v) cols) d\<rparr>)"

text \<open>\<open>DataFrame.T\<close>: rows and columns change places.\<close>

definition T :: "table \<Rightarrow> table" where
  "T t = \<lparr>col_labels = row_labels t,
          row_labels = col_labels t,
          cells = map (\<lambda>j. map (\<lambda>row. row ! j) (cells t)) [0..<length (col_labels t)]\<rparr>"

text \<open>\<open>DataFrame.add_prefix(p)\<close>: every column label becomes the string \<open>p + str(label)\<close>.\<close>

definition add_prefix :: "string \<Rightarrow> table \<Rightarrow> table" where
  "add_prefix p t = t\<lparr>col_labels := map (\<lambda>l. StrLabel (p @ str_label l)) (col_labels t)\<rparr>"

subsection \<open>The messages of the module\<close>

text \<open>
  Adjacent string literals are joined as they stand, without a space; the two helper
  messages differ from the others (the second has no comma after \<open>input\<close>).
\<close>

definition rate_msg :: string where
  "rate_msg = ''NeuroKit error: rsp_intervalrelated(): Wrong''
     @ ''input, we couldn't extract breathing rate.''
     @ ''Please make sure your DataFrame''
     @ ''contains an `RSP_Rate` column.''"

definition amplitude_msg :: string where
  "amplitude_msg = ''NeuroKit error: rsp_intervalrelated(): Wrong''
     @ ''input, we couldn't extract respiratory amplitude.''
     @ ''Please make sure your DataFrame''
     @ ''contains an `RSP_Amplitude` column.''"

definition formatinput_amplitude_msg :: string where
  "formatinput_amplitude_msg = ''NeuroKit error: rsp_intervalrelated(): Wrong''
     @ ''input we couldn't extract respiratory amplitude.''
     @ ''Please make sure your DataFrame''
     @ ''contains an `RSP_Amplitude` column.''"

text \<open>
  The errors of the four \<open>raise\<close> statements of the module, in the order of the source:
  two in \<open>rsp_intervalrelated\<close>, two in the helper. None of them is about the type of
  \<open>data\<close>.
\<close>

definition raise_statements :: "error list" where
  "raise_statements =
     [ValueError rate_msg, ValueError amplitude_msg,
      ValueError rate_msg, ValueError formatinput_amplitude_msg]"

subsection \<open>\<open>_rsp_intervalrelated_formatinput(interval, output={})\<close>\<close>

text \<open>
  The helper of the \<open>dict\<close> branch. Its second argument is \<open>Some out\<close> when the caller
  passes a \<open>dict\<close>, and \<open>None\<close> when the caller leaves it out: then \<open>output\<close> is the one
  default object of the function, which the two assignments change in place.
  The \<open>return\<close> after each \<open>raise\<close> is never reached.
\<close>

definition rsp_intervalrelated_formatinput ::
  "frame \<Rightarrow> featurerow option \<Rightarrow> world \<Rightarrow> (error + featurerow) \<times> world" where
  "rsp_intervalrelated_formatinput interval output_arg w =
     (let output = (case output_arg of None \<Rightarrow> default_output w | Some out \<Rightarrow> out);
          colnames = map fst interval
      in if length (filter (str_contains ''RSP_Rate'') colnames) = 0
           then (Inl (ValueError rate_msg), w)
         else if length (filter (str_contains ''RSP_Amplitude'') colnames) = 0
           then (Inl (ValueError formatinput_amplitude_msg), w)
         else (case getitem interval ''RSP_Rate'' of
                 Inl e \<Rightarrow> (Inl e, w)
               | Inr rate \<Rightarrow>
                  (case getitem interval ''RSP_Amplitude'' of
                     Inl e \<Rightarrow> (Inl e, w)
                   | Inr amplitude \<Rightarrow>
                      (let output1 = dict_set output ''RSP_Rate_Mean'' (np_mean rate);
                           output2 = dict_set output1 ''RSP_Amplitude_Mean'' (np_mean amplitude)
                       in (Inr output2,
                           case output_arg of
                             None \<Rightarrow> w\<lparr>default_output := output2\<rparr>
                           | Some _ \<Rightarrow> w)))))"

subsection \<open>\<open>rsp_intervalrelated(data, sampling_rate=1000)\<close>\<close>

text \<open>The fifteen keys read from the result of \<open>rsp_rrv\<close>, in the order of the source.\<close>

definition rrv_keys :: "string list" where
  "rrv_keys = [''RRV_SDBB'', ''RRV_RMSSD'', ''RRV_SDSD'', ''RRV_VLF'', ''RRV_LF'',
     ''RRV_HF'', ''RRV_LFHF'', ''RRV_LFn'', ''RRV_HFn'', ''RRV_SD1'', ''RRV_SD2'',
     ''RRV_SD2SD1'', ''RRV_ApEn'', ''RRV_SampEn'', ''RRV_DFA'']"

text \<open>
  The fifteen statements \<open>intervals[k] = float(rrv[k])\<close>, one key after the other:
  the first key that \<open>rrv\<close> lacks raises \<open>KeyError\<close>.
\<close>

fun copy_rrv :: "featurerow \<Rightarrow> string list \<Rightarrow> featurerow \<Rightarrow> error + featurerow" where
  "copy_rrv rrv [] intervals = Inr intervals"
| "copy_rrv rrv (k # ks) intervals =
     (case map_of rrv k of
        None \<Rightarrow> Inl (KeyError k)
      | Some v \<Rightarrow> copy_rrv rrv ks (dict_set intervals k v))"

text \<open>The branch \<open>isinstance(data, pd.DataFrame)\<close>.\<close>

definition rsp_intervalrelated_dataframe ::
  "rrv_fun \<Rightarrow> frame \<Rightarrow> int \<Rightarrow> world \<Rightarrow> (error + table) \<times> world" where
  "rsp_intervalrelated_dataframe rsp_rrv data sampling_rate w =
     (case filter (str_contains ''RSP_Rate'') (map fst data) of
        [rate_col] \<Rightarrow>
          (case getitem data rate_col of
             Inl e \<Rightarrow> (Inl e, w)
           | Inr rate \<Rightarrow>
              (let intervals = dict_set [] ''Rate_Mean'' (np_mean rate);
                   w1 = w\<lparr>rrv_calls := rrv_calls w @ [(data, sampling_rate)]\<rparr>
               in case rsp_rrv data sampling_rate of
                    Inl e \<Rightarrow> (Inl e, w1)
                  | Inr rrv \<Rightarrow>
                     (case copy_rrv rrv rrv_keys intervals of
                        Inl e \<Rightarrow> (Inl e, w1)
                      | Inr intervals1 \<Rightarrow>
                         (case filter (str_contains ''RSP_Amplitude'') (map fst data) of
                            [amp_col] \<Rightarrow>
                              (case getitem data amp_col of
                                 Inl e \<Rightarrow> (Inl e, w1)
                               | Inr amplitude \<Rightarrow>
                                  (let intervals2 =
                                         dict_set intervals1 ''Amplitude_Mean'' (np_mean amplitude)
                                   in (Inr (add_prefix ''RSP_''
                                              (T (from_dict_index_scalars intervals2))), w1)))
                          | _ \<Rightarrow> (Inl (ValueError amplitude_msg), w1)))))
      | _ \<Rightarrow> (Inl (ValueError rate_msg), w))"

text \<open>
  The loop \<open>for index in data\<close> of the branch \<open>isinstance(data, dict)\<close>, over the entries
  of \<open>data\<close> that are still to come: \<open>intervals[index]\<close> is set to a new empty \<open>dict\<close>,
  which is handed to the helper and stored again as the helper returns it.
\<close>

fun rsp_intervalrelated_loop ::
  "(label \<times> frame) list \<Rightarrow> (label \<times> featurerow) list \<Rightarrow> world
     \<Rightarrow> (error + (label \<times> featurerow) list) \<times> world" where
  "rsp_intervalrelated_loop [] intervals w = (Inr intervals, w)"
| "rsp_intervalrelated_loop ((index, interval) # rest) intervals w =
     (let intervals1 = dict_set intervals index []
      in case rsp_intervalrelated_formatinput interval (Some []) w of
           (Inl e, w1) \<Rightarrow> (Inl e, w1)
         | (Inr output, w1) \<Rightarrow>
             rsp_intervalrelated_loop rest (dict_set intervals1 index output) w1)"

text \<open>
  The function. With \<open>data\<close> neither a \<open>DataFrame\<close> nor a \<open>dict\<close> no branch assigns
  \<open>rsp_intervals\<close>, and \<open>return rsp_intervals\<close> raises \<open>UnboundLocalError\<close>.
\<close>

definition rsp_intervalrelated ::
  "rrv_fun \<Rightarrow> pyinput \<Rightarrow> int \<Rightarrow> world \<Rightarrow> (error + table) \<times> world" where
  "rsp_intervalrelated rsp_rrv data sampling_rate w =
     (case data of
        DataFrame df \<Rightarrow> rsp_intervalrelated_dataframe rsp_rrv df sampling_rate w
      | Dict d \<Rightarrow>
          (case rsp_intervalrelated_loop d [] w of
             (Inl e, w1) \<Rightarrow> (Inl e, w1)
           | (Inr intervals, w1) \<Rightarrow> (Inr (from_dict_index_nested intervals), w1))
      | Other \<Rightarrow> (Inl (UnboundLocalError ''rsp_intervals''), w))"

text \<open>
  What the helper leaves in a \<open>dict\<close> that was empty: the two assignments, in order.
\<close>

definition means_row :: "frame \<Rightarrow> featurerow" where
  "means_row df =
     dict_set (dict_set [] ''RSP_Rate_Mean'' (np_mean (column_values df ''RSP_Rate'')))
       ''RSP_Amplitude_Mean'' (np_mean (column_values df ''RSP_Amplitude''))"

subsection \<open>Example inputs\<close>

text \<open>A recording of three samples, and recordings with other column names.\<close>

definition example_recording :: frame where
  "example_recording = [(''RSP_Rate'', [10, 12, 14]), (''RSP_Amplitude'', [1/2, 7/10, 3/5])]"

definition rate_only_recording :: frame where
  "rate_only_recording = [(''RSP_Rate'', [10, 12, 14])]"

definition amplitude_only_recording :: frame where
  "amplitude_only_recording = [(''RSP_Amplitude'', [1/2, 7/10, 3/5])]"

definition two_rates_recording :: frame where
  "two_rates_recording =
     [(''RSP_Rate'', [10, 12, 14]), (''RSP_Rate_Alt'', [1, 2, 3]),
      (''RSP_Amplitude'', [1/2, 7/10, 3/5])]"

definition alt_rate_recording :: frame where
  "alt_rate_recording = [(''RSP_Rate_Alt'', [1, 2, 3]), (''RSP_Amplitude'', [1/2, 7/10, 3/5])]"

text \<open>
  Four stand-ins for \<open>rsp_rrv\<close>: all metrics zero, a failure, a result with one key
  only, and a result whose keys have no prefix.
\<close>

definition zero_rrv :: rrv_fun where
  "zero_rrv df sampling_rate = Inr (map (\<lambda>k. (k, Num 0)) rrv_keys)"

definition failing_rrv :: rrv_fun where
  "failing_rrv df sampling_rate = Inl (CollaboratorError ''rsp_rrv'')"

definition partial_rrv :: rrv_fun where
  "partial_rrv df sampling_rate = Inr [(''RRV_SDBB'', Num 0)]"

definition unprefixed_rrv :: rrv_fun where
  "unprefixed_rrv df sampling_rate =
     Inr (map (\<lambda>k. (k, Num 0))
       [''SDBB'', ''RMSSD'', ''SDSD'', ''VLF'', ''LF'', ''HF'', ''LFHF'', ''LFn'', ''HFn'',
        ''SD1'', ''SD2'', ''SD2SD1'', ''ApEn'', ''SampEn'', ''DFA''])"

definition fresh_world :: world where
  "fresh_world = \<lparr>default_output = [], rrv_calls = []\<rparr>"

section \<open>Properties\<close>

subsection \<open>Dictionaries and column lookup\<close>

lemma str_contains_sublist: "str_contains p s \<longleftrightarrow> sublist p s"
  by (induction s) (auto simp: sublist_Cons_right)

lemma dict_set_fresh: "k \<notin> fst ` set d \<Longrightarrow> dict_set d k v = d @ [(k, v)]"
  by (induction d) auto

lemma dict_set_last: "k \<notin> fst ` set d \<Longrightarrow> dict_set (d @ [(k, v)]) k v' = d @ [(k, v')]"
  by (induction d) auto

lemma means_row_eq:
  "means_row df = [(''RSP_Rate_Mean'', np_mean (column_values df ''RSP_Rate'')),
     (''RSP_Amplitude_Mean'', np_mean (column_values df ''RSP_Amplitude''))]"
  by (simp add: means_row_def)

lemma unique_match_names:
  assumes "filter (\<lambda>c. P (fst c)) df = [(n, vs)]"
  shows "filter P (map fst df) = [n]"
proof -
  have "filter P (map fst df) = map fst (filter (\<lambda>c. P (fst c)) df)"
    by (simp add: filter_map comp_def)
  with assms show ?thesis by simp
qed

text \<open>
  A column that is the only one to pass a test on names is the only one of its name, so
  the subscript returns its values and nothing else.
\<close>

lemma unique_match_getitem:
  assumes "filter (\<lambda>c. P (fst c)) df = [(n, vs)]"
  shows "getitem df n = Inr vs"
proof -
  have mem: "(n, vs) \<in> set (filter (\<lambda>c. P (fst c)) df)"
    using assms by simp
  then have Pn: "P n" by simp
  from mem have here: "n \<in> set (map fst df)" by force
  have "filter (\<lambda>c. fst c = n) df = filter (\<lambda>c. P (fst c) \<and> fst c = n) df"
    by (rule filter_cong) (auto simp: Pn)
  also have "\<dots> = filter (\<lambda>c. fst c = n) (filter (\<lambda>c. P (fst c)) df)"
    by (simp add: conj_commute)
  also have "\<dots> = [(n, vs)]" using assms by simp
  finally show ?thesis using here by (simp add: getitem_def column_values_def)
qed

lemma matches_nonempty:
  "n \<in> set (map fst df) \<Longrightarrow> P n \<Longrightarrow> length (filter P (map fst df)) \<noteq> 0"
  by (auto simp: filter_empty_conv)

subsection \<open>The fifteen metrics\<close>

lemma copy_rrv_all:
  assumes "map (map_of rrv) ks = map Some vs" and "distinct ks"
    and "set ks \<inter> fst ` set acc = {}"
  shows "copy_rrv rrv ks acc = Inr (acc @ zip ks vs)"
  using assms
proof (induction ks arbitrary: vs acc)
  case Nil
  then show ?case by simp
next
  case (Cons k ks)
  from Cons.prems(1) obtain v vs' where vs: "vs = v # vs'" and k: "map_of rrv k = Some v"
    and rest: "map (map_of rrv) ks = map Some vs'"
    by (cases vs) auto
  from Cons.prems(3) have fresh: "k \<notin> fst ` set acc" by auto
  have disj: "set ks \<inter> fst ` set (acc @ [(k, v)]) = {}"
    using Cons.prems(2,3) by auto
  have "copy_rrv rrv (k # ks) acc = copy_rrv rrv ks (acc @ [(k, v)])"
    using k fresh by (simp add: dict_set_fresh)
  also have "\<dots> = Inr ((acc @ [(k, v)]) @ zip ks vs')"
    using Cons.IH[OF rest _ disj] Cons.prems(2) by simp
  finally show ?case using vs by simp
qed

lemma copy_rrv_missing:
  assumes "\<exists>k\<in>set ks. map_of rrv k = None"
  shows "\<exists>k\<in>set ks. map_of rrv k = None \<and> copy_rrv rrv ks acc = Inl (KeyError k)"
  using assms
proof (induction ks arbitrary: acc)
  case Nil
  then show ?case by simp
next
  case (Cons k ks)
  show ?case
  proof (cases "map_of rrv k")
    case None
    then show ?thesis by simp
  next
    case (Some v)
    with Cons.prems have "\<exists>k\<in>set ks. map_of rrv k = None" by auto
    from Cons.IH[OF this, of "dict_set acc k v"] Some show ?thesis by auto
  qed
qed

lemma distinct_rrv_keys: "distinct rrv_keys"
  by (simp add: rrv_keys_def)

lemma rrv_intervals:
  assumes "map (map_of rrv) rrv_keys = map Some metrics"
  shows "copy_rrv rrv rrv_keys (dict_set [] ''Rate_Mean'' m)
    = Inr ((''Rate_Mean'', m) # zip rrv_keys metrics)"
proof -
  have "set rrv_keys \<inter> fst ` set [(''Rate_Mean'', m)] = {}"
    by (simp add: rrv_keys_def)
  from copy_rrv_all[OF assms distinct_rrv_keys this] show ?thesis by simp
qed

subsection \<open>The branch for one recording\<close>

lemma one_row_table:
  assumes "d \<noteq> []"
  shows "add_prefix p (T (from_dict_index_scalars d)) =
    \<lparr>col_labels = map (\<lambda>k. StrLabel (p @ k)) (map fst d),
     row_labels = [IntLabel 0],
     cells = [map snd d]\<rparr>"
  using assms
  by (simp add: add_prefix_def T_def from_dict_index_scalars_def str_label_def comp_def)

lemma feature_table:
  assumes "length metrics = length rrv_keys"
  shows "add_prefix ''RSP_'' (T (from_dict_index_scalars
            (dict_set ((''Rate_Mean'', m) # zip rrv_keys metrics) ''Amplitude_Mean'' a))) =
     \<lparr>col_labels = map StrLabel
              [''RSP_Rate_Mean'', ''RSP_RRV_SDBB'', ''RSP_RRV_RMSSD'', ''RSP_RRV_SDSD'',
               ''RSP_RRV_VLF'', ''RSP_RRV_LF'', ''RSP_RRV_HF'', ''RSP_RRV_LFHF'',
               ''RSP_RRV_LFn'', ''RSP_RRV_HFn'', ''RSP_RRV_SD1'', ''RSP_RRV_SD2'',
               ''RSP_RRV_SD2SD1'', ''RSP_RRV_ApEn'', ''RSP_RRV_SampEn'', ''RSP_RRV_DFA'',
               ''RSP_Amplitude_Mean''],
      row_labels = [IntLabel 0],
      cells = [m # metrics @ [a]]\<rparr>"
proof -
  let ?d1 = "(''Rate_Mean'', m) # zip rrv_keys metrics"
  have keys1: "map fst ?d1 = ''Rate_Mean'' # rrv_keys" and vals1: "map snd ?d1 = m # metrics"
    using assms by simp_all
  have "''Amplitude_Mean'' \<notin> set (map fst ?d1)"
    unfolding keys1 by (simp add: rrv_keys_def)
  then have fresh: "''Amplitude_Mean'' \<notin> fst ` set ?d1" by simp
  let ?d2 = "?d1 @ [(''Amplitude_Mean'', a)]"
  have d2: "dict_set ?d1 ''Amplitude_Mean'' a = ?d2"
    by (rule dict_set_fresh[OF fresh])
  have keys2: "map fst ?d2 = ''Rate_Mean'' # rrv_keys @ [''Amplitude_Mean'']"
    using keys1 by simp
  have vals2: "map snd ?d2 = m # metrics @ [a]"
    using vals1 by simp
  show ?thesis
    unfolding d2 using one_row_table[of ?d2 "''RSP_''"] unfolding keys2 vals2
    by (simp add: rrv_keys_def)
qed

lemma dataframe_rate_check:
  assumes "length (filter (str_contains ''RSP_Rate'') (map fst df)) \<noteq> 1"
  shows "rsp_intervalrelated_dataframe rsp_rrv df sampling_rate w = (Inl (ValueError rate_msg), w)"
proof (cases "filter (str_contains ''RSP_Rate'') (map fst df)")
  case Nil
  then show ?thesis
    by (simp add: rsp_intervalrelated_dataframe_def del: filter_map)
next
  case (Cons a as)
  with assms obtain b bs where "as = b # bs" by (cases as) auto
  with Cons show ?thesis
    by (simp add: rsp_intervalrelated_dataframe_def del: filter_map)
qed

lemma dataframe_rrv_raises:
  assumes rate: "filter (\<lambda>c. str_contains ''RSP_Rate'' (fst c)) df = [(rate_col, rate)]"
    and rrv: "rsp_rrv df sampling_rate = Inl e"
  shows "rsp_intervalrelated_dataframe rsp_rrv df sampling_rate w = (Inl e, w\<lparr>rrv_calls := rrv_calls w @ [(df, sampling_rate)]\<rparr>)"
  unfolding rsp_intervalrelated_dataframe_def
  by (simp only: unique_match_names[OF rate] unique_match_getitem[OF rate]
      rrv list.case sum.case Let_def)

lemma dataframe_rrv_lacks_key:
  assumes rate: "filter (\<lambda>c. str_contains ''RSP_Rate'' (fst c)) df = [(rate_col, rate)]"
    and rrv: "rsp_rrv df sampling_rate = Inr rrv"
    and missing: "\<exists>k\<in>set rrv_keys. map_of rrv k = None"
  shows "\<exists>k\<in>set rrv_keys. map_of rrv k = None \<and>
     rsp_intervalrelated_dataframe rsp_rrv df sampling_rate w = (Inl (KeyError k), w\<lparr>rrv_calls := rrv_calls w @ [(df, sampling_rate)]\<rparr>)"
proof -
  from copy_rrv_missing[OF missing, of "dict_set [] ''Rate_Mean'' (np_mean rate)"]
  obtain k where k: "k \<in> set rrv_keys" "map_of rrv k = None"
    and c: "copy_rrv rrv rrv_keys (dict_set [] ''Rate_Mean'' (np_mean rate)) = Inl (KeyError k)"
    by blast
  have "rsp_intervalrelated_dataframe rsp_rrv df sampling_rate w = (Inl (KeyError k), w\<lparr>rrv_calls := rrv_calls w @ [(df, sampling_rate)]\<rparr>)"
    unfolding rsp_intervalrelated_dataframe_def
    by (simp only: unique_match_names[OF rate] unique_match_getitem[OF rate]
      rrv c list.case sum.case Let_def)
  with k show ?thesis by blast
qed

text \<open>
  Once the rate column is found and \<open>rsp_rrv\<close> has returned all fifteen keys, what is
  left of the branch is the check of the amplitude column.
\<close>

lemma dataframe_after_rrv:
  assumes rate: "filter (\<lambda>c. str_contains ''RSP_Rate'' (fst c)) df = [(rate_col, rate)]"
    and rrv: "rsp_rrv df sampling_rate = Inr rrv"
    and metrics: "map (map_of rrv) rrv_keys = map Some metrics"
  shows "rsp_intervalrelated_dataframe rsp_rrv df sampling_rate w =
     (case filter (str_contains ''RSP_Amplitude'') (map fst df) of
        [amp_col] \<Rightarrow>
          (case getitem df amp_col of
             Inl e \<Rightarrow> (Inl e, w\<lparr>rrv_calls := rrv_calls w @ [(df, sampling_rate)]\<rparr>)
           | Inr amplitude \<Rightarrow>
               (Inr (add_prefix ''RSP_'' (T (from_dict_index_scalars
                  (dict_set ((''Rate_Mean'', np_mean rate) # zip rrv_keys metrics)
                     ''Amplitude_Mean'' (np_mean amplitude))))),
                w\<lparr>rrv_calls := rrv_calls w @ [(df, sampling_rate)]\<rparr>))
      | _ \<Rightarrow> (Inl (ValueError amplitude_msg), w\<lparr>rrv_calls := rrv_calls w @ [(df, sampling_rate)]\<rparr>))"
  unfolding rsp_intervalrelated_dataframe_def
  by (simp only: unique_match_names[OF rate] unique_match_getitem[OF rate]
      rrv rrv_intervals[OF metrics] list.case sum.case Let_def)

text \<open>
  Claim C1. A recording with exactly one column whose name contains \<open>RSP_Rate\<close> and
  exactly one whose name contains \<open>RSP_Amplitude\<close>, for which \<open>rsp_rrv\<close> returns all
  fifteen metrics, gives a table of one row and seventeen columns: \<open>RSP_Rate_Mean\<close>, the
  fifteen \<open>RSP_RRV_\<close> columns in the order of the source, \<open>RSP_Amplitude_Mean\<close>. The two
  means are the means of the matched columns: the sum of the values over their number
  when there is a value, \<open>nan\<close> for a recording without samples.
\<close>

theorem single_recording_feature_row:
  assumes rate: "filter (\<lambda>c. str_contains ''RSP_Rate'' (fst c)) df = [(rate_col, rate)]"
    and amp: "filter (\<lambda>c. str_contains ''RSP_Amplitude'' (fst c)) df = [(amp_col, amplitude)]"
    and rrv: "rsp_rrv df sampling_rate = Inr rrv"
    and metrics: "map (map_of rrv) rrv_keys = map Some metrics"
  shows "rsp_intervalrelated rsp_rrv (DataFrame df) sampling_rate w =
      (Inr \<lparr>col_labels = map StrLabel
              [''RSP_Rate_Mean'', ''RSP_RRV_SDBB'', ''RSP_RRV_RMSSD'', ''RSP_RRV_SDSD'',
               ''RSP_RRV_VLF'', ''RSP_RRV_LF'', ''RSP_RRV_HF'', ''RSP_RRV_LFHF'',
               ''RSP_RRV_LFn'', ''RSP_RRV_HFn'', ''RSP_RRV_SD1'', ''RSP_RRV_SD2'',
               ''RSP_RRV_SD2SD1'', ''RSP_RRV_ApEn'', ''RSP_RRV_SampEn'', ''RSP_RRV_DFA'',
               ''RSP_Amplitude_Mean''],
            row_labels = [IntLabel 0],
            cells = [np_mean rate # metrics @ [np_mean amplitude]]\<rparr>,
       w\<lparr>rrv_calls := rrv_calls w @ [(df, sampling_rate)]\<rparr>)
     \<and> (rate \<noteq> [] \<longrightarrow> np_mean rate = Num (sum_list rate / real (length rate)))
     \<and> (amplitude \<noteq> [] \<longrightarrow>
          np_mean amplitude = Num (sum_list amplitude / real (length amplitude)))"
proof -
  have len: "length metrics = length rrv_keys"
    using metrics by (metis length_map)
  have "rsp_intervalrelated_dataframe rsp_rrv df sampling_rate w =
     (Inr (add_prefix ''RSP_'' (T (from_dict_index_scalars
        (dict_set ((''Rate_Mean'', np_mean rate) # zip rrv_keys metrics)
           ''Amplitude_Mean'' (np_mean amplitude))))),
      w\<lparr>rrv_calls := rrv_calls w @ [(df, sampling_rate)]\<rparr>)"
    unfolding dataframe_after_rrv[where rsp_rrv = rsp_rrv and sampling_rate = sampling_rate,
        OF rate rrv metrics]
    by (simp only: unique_match_names[OF amp] unique_match_getitem[OF amp] list.case sum.case)
  then show ?thesis
    unfolding feature_table[OF len] by (simp add: rsp_intervalrelated_def np_mean_def)
qed

theorem single_recording_feature_row_witness:
  "rsp_intervalrelated zero_rrv (DataFrame example_recording) 1000 fresh_world =
     (Inr \<lparr>col_labels = map StrLabel
              [''RSP_Rate_Mean'', ''RSP_RRV_SDBB'', ''RSP_RRV_RMSSD'', ''RSP_RRV_SDSD'',
               ''RSP_RRV_VLF'', ''RSP_RRV_LF'', ''RSP_RRV_HF'', ''RSP_RRV_LFHF'',
               ''RSP_RRV_LFn'', ''RSP_RRV_HFn'', ''RSP_RRV_SD1'', ''RSP_RRV_SD2'',
               ''RSP_RRV_SD2SD1'', ''RSP_RRV_ApEn'', ''RSP_RRV_SampEn'', ''RSP_RRV_DFA'',
               ''RSP_Amplitude_Mean''],
            row_labels = [IntLabel 0],
            cells = [[Num 12, Num 0, Num 0, Num 0, Num 0, Num 0, Num 0, Num 0, Num 0,
                      Num 0, Num 0, Num 0, Num 0, Num 0, Num 0, Num 0, Num (3/5)]]\<rparr>,
      \<lparr>default_output = [], rrv_calls = [(example_recording, 1000)]\<rparr>)"
  using single_recording_feature_row[of example_recording "''RSP_Rate''" "[10, 12, 14]"
      "''RSP_Amplitude''" "[1/2, 7/10, 3/5]"
      zero_rrv 1000 "map (\<lambda>k. (k, Num 0)) rrv_keys" "replicate 15 (Num 0)" fresh_world]
  by (simp add: example_recording_def zero_rrv_def rrv_keys_def np_mean_def fresh_world_def
      numeral_eq_Suc)

text \<open>
  Claim C2. A recording in which no column name, or more than one, contains \<open>RSP_Rate\<close>
  makes the call raise the \<open>ValueError\<close> about the breathing rate. The state is the one
  before the call, so \<open>rsp_rrv\<close> has not been called.
\<close>

theorem rate_column_missing_or_ambiguous:
  assumes "length (filter (str_contains ''RSP_Rate'') (map fst df)) \<noteq> 1"
  shows "rsp_intervalrelated rsp_rrv (DataFrame df) sampling_rate w =
    (Inl (ValueError rate_msg), w)"
  using dataframe_rate_check[OF assms] by (simp add: rsp_intervalrelated_def)

theorem rate_column_missing_or_ambiguous_witness:
  "rsp_intervalrelated zero_rrv (DataFrame amplitude_only_recording) 1000 fresh_world
     = (Inl (ValueError rate_msg), fresh_world)
   \<and> rsp_intervalrelated zero_rrv (DataFrame two_rates_recording) 1000 fresh_world
     = (Inl (ValueError rate_msg), fresh_world)"
  using rate_column_missing_or_ambiguous[of amplitude_only_recording zero_rrv 1000 fresh_world]
    rate_column_missing_or_ambiguous[of two_rates_recording zero_rrv 1000 fresh_world]
  by (simp add: amplitude_only_recording_def two_rates_recording_def)

text \<open>
  Claim C5, as stated, fails: the amplitude column is checked only after \<open>rsp_rrv\<close> has
  been called and its fifteen keys read, so for a recording with one rate column and no
  amplitude column a failure of \<open>rsp_rrv\<close> is what the caller sees.
\<close>

theorem amplitude_error_preempted_by_rrv:
  "length (filter (str_contains ''RSP_Rate'') (map fst rate_only_recording)) = 1
   \<and> length (filter (str_contains ''RSP_Amplitude'') (map fst rate_only_recording)) = 0
   \<and> fst (rsp_intervalrelated failing_rrv (DataFrame rate_only_recording) 1000 fresh_world)
       = Inl (CollaboratorError ''rsp_rrv'')
   \<and> fst (rsp_intervalrelated failing_rrv (DataFrame rate_only_recording) 1000 fresh_world)
       \<noteq> Inl (ValueError amplitude_msg)"
  by (simp add: rate_only_recording_def rsp_intervalrelated_def rsp_intervalrelated_dataframe_def
      failing_rrv_def getitem_def Let_def)

text \<open>
  Claim C5, amended. A recording with exactly one column whose name contains \<open>RSP_Rate\<close>,
  for which \<open>rsp_rrv\<close> returns all fifteen metrics, and in which no column name, or more
  than one, contains \<open>RSP_Amplitude\<close>, makes the call raise the \<open>ValueError\<close> about the
  respiratory amplitude; no table is returned.
\<close>

theorem amplitude_column_missing_or_ambiguous:
  assumes rate: "filter (\<lambda>c. str_contains ''RSP_Rate'' (fst c)) df = [(rate_col, rate)]"
    and amp: "length (filter (str_contains ''RSP_Amplitude'') (map fst df)) \<noteq> 1"
    and rrv: "rsp_rrv df sampling_rate = Inr rrv"
    and metrics: "map (map_of rrv) rrv_keys = map Some metrics"
  shows "rsp_intervalrelated rsp_rrv (DataFrame df) sampling_rate w =
      (Inl (ValueError amplitude_msg), w\<lparr>rrv_calls := rrv_calls w @ [(df, sampling_rate)]\<rparr>)"
proof -
  note pre = dataframe_after_rrv[where rsp_rrv = rsp_rrv and sampling_rate = sampling_rate,
      OF rate rrv metrics]
  show ?thesis
  proof (cases "filter (str_contains ''RSP_Amplitude'') (map fst df)")
    case Nil
    then show ?thesis by (simp add: rsp_intervalrelated_def pre del: filter_map)
  next
    case (Cons a as)
    with amp obtain b bs where "as = b # bs" by (cases as) auto
    with Cons show ?thesis by (simp add: rsp_intervalrelated_def pre del: filter_map)
  qed
qed

theorem amplitude_column_missing_or_ambiguous_witness:
  "rsp_intervalrelated zero_rrv (DataFrame rate_only_recording) 1000 fresh_world =
      (Inl (ValueError amplitude_msg),
       \<lparr>default_output = [], rrv_calls = [(rate_only_recording, 1000)]\<rparr>)"
  using amplitude_column_missing_or_ambiguous[of rate_only_recording "''RSP_Rate''"
      "[10, 12, 14]" zero_rrv 1000 "map (\<lambda>k. (k, Num 0)) rrv_keys" "replicate 15 (Num 0)"
      fresh_world]
  by (simp add: rate_only_recording_def zero_rrv_def rrv_keys_def fresh_world_def numeral_eq_Suc)

text \<open>
  Claim C6, as stated, fails: the keys that the code reads from the result of \<open>rsp_rrv\<close>
  are \<open>RRV_SDBB\<close>, \<dots>, \<open>RRV_DFA\<close>, not \<open>SDBB\<close>, \<dots>, \<open>DFA\<close>. A result that has all of
  \<open>SDBB\<close>, \<dots>, \<open>DFA\<close> is not copied; the first read raises \<open>KeyError\<close>.
\<close>

theorem rrv_unprefixed_keys_rejected:
  "rsp_intervalrelated unprefixed_rrv (DataFrame example_recording) 1000 fresh_world =
     (Inl (KeyError ''RRV_SDBB''),
      \<lparr>default_output = [], rrv_calls = [(example_recording, 1000)]\<rparr>)"
  by (simp add: rsp_intervalrelated_def rsp_intervalrelated_dataframe_def example_recording_def
      unprefixed_rrv_def getitem_def column_values_def rrv_keys_def fresh_world_def Let_def)

text \<open>
  Claim C6, amended. In the branch for one recording, once the rate column is found:
  an exception of \<open>rsp_rrv\<close> leaves the call as it is; a result of \<open>rsp_rrv\<close> that
  lacks one of the fifteen keys \<open>RRV_SDBB\<close>, \<open>RRV_RMSSD\<close>, \<open>RRV_SDSD\<close>, \<open>RRV_VLF\<close>,
  \<open>RRV_LF\<close>, \<open>RRV_HF\<close>, \<open>RRV_LFHF\<close>, \<open>RRV_LFn\<close>, \<open>RRV_HFn\<close>, \<open>RRV_SD1\<close>, \<open>RRV_SD2\<close>,
  \<open>RRV_SD2SD1\<close>, \<open>RRV_ApEn\<close>, \<open>RRV_SampEn\<close>, \<open>RRV_DFA\<close> makes the call raise \<open>KeyError\<close>
  for a key that is lacking, and no table is returned; a result that has them all is
  copied, each value under its own key, which the table shows with the prefix \<open>RSP_\<close>,
  in every table the call returns.
\<close>

theorem rrv_failure_propagates:
  assumes rate: "filter (\<lambda>c. str_contains ''RSP_Rate'' (fst c)) df = [(rate_col, rate)]"
  shows "(\<forall>e. rsp_rrv df sampling_rate = Inl e \<longrightarrow>
            rsp_intervalrelated rsp_rrv (DataFrame df) sampling_rate w = (Inl e, w\<lparr>rrv_calls := rrv_calls w @ [(df, sampling_rate)]\<rparr>))
       \<and> (\<forall>rrv. rsp_rrv df sampling_rate = Inr rrv \<longrightarrow>
            (\<exists>k\<in>set rrv_keys. map_of rrv k = None) \<longrightarrow>
            (\<exists>k\<in>set rrv_keys. map_of rrv k = None \<and>
               rsp_intervalrelated rsp_rrv (DataFrame df) sampling_rate w =
                 (Inl (KeyError k), w\<lparr>rrv_calls := rrv_calls w @ [(df, sampling_rate)]\<rparr>)))
       \<and> (\<forall>rrv metrics t. rsp_rrv df sampling_rate = Inr rrv \<longrightarrow>
            map (map_of rrv) rrv_keys = map Some metrics \<longrightarrow>
            fst (rsp_intervalrelated rsp_rrv (DataFrame df) sampling_rate w) = Inr t \<longrightarrow>
            (\<exists>a. t = \<lparr>col_labels = map StrLabel
              [''RSP_Rate_Mean'', ''RSP_RRV_SDBB'', ''RSP_RRV_RMSSD'', ''RSP_RRV_SDSD'',
               ''RSP_RRV_VLF'', ''RSP_RRV_LF'', ''RSP_RRV_HF'', ''RSP_RRV_LFHF'',
               ''RSP_RRV_LFn'', ''RSP_RRV_HFn'', ''RSP_RRV_SD1'', ''RSP_RRV_SD2'',
               ''RSP_RRV_SD2SD1'', ''RSP_RRV_ApEn'', ''RSP_RRV_SampEn'', ''RSP_RRV_DFA'',
               ''RSP_Amplitude_Mean''],
                       row_labels = [IntLabel 0],
                       cells = [np_mean rate # metrics @ [a]]\<rparr>))"
proof (intro conjI allI impI)
  fix e assume "rsp_rrv df sampling_rate = Inl e"
  from dataframe_rrv_raises[where rsp_rrv = rsp_rrv and sampling_rate = sampling_rate,
      OF rate this]
  show "rsp_intervalrelated rsp_rrv (DataFrame df) sampling_rate w = (Inl e, w\<lparr>rrv_calls := rrv_calls w @ [(df, sampling_rate)]\<rparr>)"
    by (simp add: rsp_intervalrelated_def)
next
  fix rrv assume "rsp_rrv df sampling_rate = Inr rrv" "\<exists>k\<in>set rrv_keys. map_of rrv k = None"
  from dataframe_rrv_lacks_key[where rsp_rrv = rsp_rrv and sampling_rate = sampling_rate,
      OF rate this]
  show "\<exists>k\<in>set rrv_keys. map_of rrv k = None \<and>
               rsp_intervalrelated rsp_rrv (DataFrame df) sampling_rate w =
                 (Inl (KeyError k), w\<lparr>rrv_calls := rrv_calls w @ [(df, sampling_rate)]\<rparr>)"
    by (simp add: rsp_intervalrelated_def)
next
  fix rrv metrics t
  assume rrv: "rsp_rrv df sampling_rate = Inr rrv"
    and metrics: "map (map_of rrv) rrv_keys = map Some metrics"
    and t: "fst (rsp_intervalrelated rsp_rrv (DataFrame df) sampling_rate w) = Inr t"
  have len: "length metrics = length rrv_keys"
    using metrics by (metis length_map)
  from t have "\<exists>a. t = add_prefix ''RSP_'' (T (from_dict_index_scalars
                  (dict_set ((''Rate_Mean'', np_mean rate) # zip rrv_keys metrics)
                     ''Amplitude_Mean'' a)))"
    unfolding rsp_intervalrelated_def pyinput.case
      dataframe_after_rrv[where rsp_rrv = rsp_rrv and sampling_rate = sampling_rate,
        OF rate rrv metrics]
    by (auto split: list.splits sum.splits)
  then show "\<exists>a. t = \<lparr>col_labels = map StrLabel
              [''RSP_Rate_Mean'', ''RSP_RRV_SDBB'', ''RSP_RRV_RMSSD'', ''RSP_RRV_SDSD'',
               ''RSP_RRV_VLF'', ''RSP_RRV_LF'', ''RSP_RRV_HF'', ''RSP_RRV_LFHF'',
               ''RSP_RRV_LFn'', ''RSP_RRV_HFn'', ''RSP_RRV_SD1'', ''RSP_RRV_SD2'',
               ''RSP_RRV_SD2SD1'', ''RSP_RRV_ApEn'', ''RSP_RRV_SampEn'', ''RSP_RRV_DFA'',
               ''RSP_Amplitude_Mean''],
                       row_labels = [IntLabel 0],
                       cells = [np_mean rate # metrics @ [a]]\<rparr>"
    unfolding feature_table[OF len] .
qed

theorem rrv_failure_propagates_witness:
  "rsp_intervalrelated failing_rrv (DataFrame example_recording) 1000 fresh_world =
     (Inl (CollaboratorError ''rsp_rrv''),
      \<lparr>default_output = [], rrv_calls = [(example_recording, 1000)]\<rparr>)
   \<and> rsp_intervalrelated partial_rrv (DataFrame example_recording) 1000 fresh_world =
     (Inl (KeyError ''RRV_RMSSD''),
      \<lparr>default_output = [], rrv_calls = [(example_recording, 1000)]\<rparr>)"
proof -
  have rate: "filter (\<lambda>c. str_contains ''RSP_Rate'' (fst c)) example_recording
                = [(''RSP_Rate'', [10, 12, 14])]"
    by (simp add: example_recording_def)
  note t = rrv_failure_propagates[OF rate, of _ 1000 fresh_world]
  have one: "rsp_intervalrelated failing_rrv (DataFrame example_recording) 1000 fresh_world =
     (Inl (CollaboratorError ''rsp_rrv''),
      \<lparr>default_output = [], rrv_calls = [(example_recording, 1000)]\<rparr>)"
    using t[of failing_rrv] by (simp add: failing_rrv_def fresh_world_def)
  have "\<exists>k\<in>set rrv_keys. map_of [(''RRV_SDBB'', Num 0)] k = None \<and>
          rsp_intervalrelated partial_rrv (DataFrame example_recording) 1000 fresh_world =
            (Inl (KeyError k),
             fresh_world\<lparr>rrv_calls := rrv_calls fresh_world @ [(example_recording, 1000)]\<rparr>)"
    using t[of partial_rrv] by (simp add: partial_rrv_def rrv_keys_def)
  then have two:
    "rsp_intervalrelated partial_rrv (DataFrame example_recording) 1000 fresh_world =
       (Inl (KeyError ''RRV_RMSSD''),
        \<lparr>default_output = [], rrv_calls = [(example_recording, 1000)]\<rparr>)"
    by (simp add: rsp_intervalrelated_def rsp_intervalrelated_dataframe_def
        example_recording_def partial_rrv_def getitem_def column_values_def rrv_keys_def
        fresh_world_def Let_def)
  from one two show ?thesis by simp
qed

subsection \<open>The branch for a collection of recordings\<close>

lemma formatinput_exact_columns:
  assumes "''RSP_Rate'' \<in> set (map fst interval)"
    and "''RSP_Amplitude'' \<in> set (map fst interval)"
  shows "rsp_intervalrelated_formatinput interval (Some output) w =
    (Inr (dict_set (dict_set output ''RSP_Rate_Mean''
                      (np_mean (column_values interval ''RSP_Rate'')))
            ''RSP_Amplitude_Mean'' (np_mean (column_values interval ''RSP_Amplitude''))), w)"
proof -
  have r: "length (filter (str_contains ''RSP_Rate'') (map fst interval)) \<noteq> 0"
    by (rule matches_nonempty[OF assms(1)]) simp
  have a: "length (filter (str_contains ''RSP_Amplitude'') (map fst interval)) \<noteq> 0"
    by (rule matches_nonempty[OF assms(2)]) simp
  show ?thesis
    unfolding rsp_intervalrelated_formatinput_def Let_def
    using assms by (simp only: r a if_False) (simp add: getitem_def)
qed

text \<open>
  The loop, from any point on: it appends one row per entry that is left, provided the
  keys still to come are new.
\<close>

lemma loop_exact_columns:
  assumes "distinct (map fst d)"
    and "set (map fst d) \<inter> fst ` set intervals = {}"
    and "\<forall>df \<in> set (map snd d).
           ''RSP_Rate'' \<in> set (map fst df) \<and> ''RSP_Amplitude'' \<in> set (map fst df)"
  shows "rsp_intervalrelated_loop d intervals w =
    (Inr (intervals @ map (\<lambda>kv. (fst kv, means_row (snd kv))) d), w)"
  using assms
proof (induction d arbitrary: intervals)
  case Nil
  then show ?case by simp
next
  case (Cons a d)
  obtain index interval where a: "a = (index, interval)" by (cases a)
  from Cons.prems a have fresh: "index \<notin> fst ` set intervals" by auto
  from Cons.prems a have cols: "''RSP_Rate'' \<in> set (map fst interval)"
    "''RSP_Amplitude'' \<in> set (map fst interval)" by auto
  have row: "rsp_intervalrelated_formatinput interval (Some []) w = (Inr (means_row interval), w)"
    unfolding formatinput_exact_columns[OF cols] means_row_def ..
  have disj: "set (map fst d) \<inter> fst ` set (intervals @ [(index, means_row interval)]) = {}"
    using Cons.prems(1,2) a by auto
  have "rsp_intervalrelated_loop (a # d) intervals w =
      rsp_intervalrelated_loop d (intervals @ [(index, means_row interval)]) w"
    by (simp add: a row dict_set_fresh[OF fresh] dict_set_last[OF fresh])
  also have "\<dots> = (Inr ((intervals @ [(index, means_row interval)])
       @ map (\<lambda>kv. (fst kv, means_row (snd kv))) d), w)"
    using Cons.IH[OF _ disj] Cons.prems(1,3) by simp
  finally show ?case by (simp add: a)
qed

lemma first_seen_known: "set xs \<subseteq> set seen \<Longrightarrow> first_seen seen xs = []"
  by (induction xs) auto

lemma first_seen_means_rows:
  assumes "d \<noteq> []"
  shows "first_seen [] (concat (map (\<lambda>kr. map fst (snd kr))
            (map (\<lambda>kv. (fst kv, means_row (snd kv))) d)))
    = [''RSP_Rate_Mean'', ''RSP_Amplitude_Mean'']"
proof -
  from assms obtain a d' where d: "d = a # d'" by (cases d) auto
  let ?rest = "concat (map (\<lambda>kr. map fst (snd kr))
                 (map (\<lambda>kv. (fst kv, means_row (snd kv))) d'))"
  have "set ?rest \<subseteq> set [''RSP_Amplitude_Mean'', ''RSP_Rate_Mean'']"
    by (auto simp: means_row_eq)
  from first_seen_known[OF this] show ?thesis
    by (simp add: d means_row_eq)
qed

lemma nested_table_means_rows:
  "from_dict_index_nested (map (\<lambda>kv. (fst kv, means_row (snd kv))) d) =
    \<lparr>col_labels = (if d = [] then []
                   else [StrLabel ''RSP_Rate_Mean'', StrLabel ''RSP_Amplitude_Mean'']),
     row_labels = map fst d,
     cells = map (\<lambda>kv. [np_mean (column_values (snd kv) ''RSP_Rate''),
                         np_mean (column_values (snd kv) ''RSP_Amplitude'')]) d\<rparr>"
proof (cases "d = []")
  case True
  then show ?thesis by (simp add: from_dict_index_nested_def)
next
  case False
  show ?thesis
    unfolding from_dict_index_nested_def Let_def first_seen_means_rows[OF False]
    using False by (simp add: comp_def means_row_eq)
qed

text \<open>
  Claim C3. A \<open>dict\<close> of recordings, each with columns named \<open>RSP_Rate\<close> and
  \<open>RSP_Amplitude\<close>, gives a table with one row per entry, labelled by the keys of the
  \<open>dict\<close> in their order; a row holds the mean of the values under \<open>RSP_Rate\<close> and the
  mean of the values under \<open>RSP_Amplitude\<close>, and the columns of a table with a row are
  \<open>RSP_Rate_Mean\<close> and \<open>RSP_Amplitude_Mean\<close>, with no prefix added. The keys of a
  \<open>dict\<close> are distinct.
\<close>

theorem collection_rows:
  assumes "distinct (map fst d)"
    and "\<forall>df \<in> set (map snd d).
           ''RSP_Rate'' \<in> set (map fst df) \<and> ''RSP_Amplitude'' \<in> set (map fst df)"
  shows "rsp_intervalrelated rsp_rrv (Dict d) sampling_rate w =
    (Inr \<lparr>col_labels = (if d = [] then []
                         else [StrLabel ''RSP_Rate_Mean'', StrLabel ''RSP_Amplitude_Mean'']),
          row_labels = map fst d,
          cells = map (\<lambda>kv. [np_mean (column_values (snd kv) ''RSP_Rate''),
                              np_mean (column_values (snd kv) ''RSP_Amplitude'')]) d\<rparr>, w)"
proof -
  have "rsp_intervalrelated_loop d [] w = (Inr (map (\<lambda>kv. (fst kv, means_row (snd kv))) d), w)"
    using loop_exact_columns[OF assms(1) _ assms(2), of "[]" w] by simp
  then show ?thesis
    by (simp add: rsp_intervalrelated_def nested_table_means_rows)
qed

theorem collection_rows_witness:
  "rsp_intervalrelated zero_rrv
     (Dict [(StrLabel ''A'', example_recording), (StrLabel ''B'', two_rates_recording)])
     1000 fresh_world =
   (Inr \<lparr>col_labels = [StrLabel ''RSP_Rate_Mean'', StrLabel ''RSP_Amplitude_Mean''],
         row_labels = [StrLabel ''A'', StrLabel ''B''],
         cells = [[Num 12, Num (3/5)], [Num 12, Num (3/5)]]\<rparr>, fresh_world)"
  using collection_rows[of "[(StrLabel ''A'', example_recording),
      (StrLabel ''B'', two_rates_recording)]" zero_rrv 1000 fresh_world]
  by (simp add: example_recording_def two_rates_recording_def column_values_def np_mean_def)

text \<open>
  Claim C10. The empty \<open>dict\<close> does not make the call fail: the loop runs no round and
  the table has no row (and no column).
\<close>

theorem empty_collection_empty_table:
  "rsp_intervalrelated rsp_rrv (Dict []) sampling_rate w =
     (Inr \<lparr>col_labels = [], row_labels = [], cells = []\<rparr>, w)"
  by (simp add: rsp_intervalrelated_def from_dict_index_nested_def)

lemma formatinput_checks_passed:
  assumes "1 \<le> length (filter (str_contains ''RSP_Rate'') (map fst interval))"
    and "1 \<le> length (filter (str_contains ''RSP_Amplitude'') (map fst interval))"
  shows "rsp_intervalrelated_formatinput interval (Some output) w =
     (case getitem interval ''RSP_Rate'' of
        Inl e \<Rightarrow> (Inl e, w)
      | Inr rate \<Rightarrow>
         (case getitem interval ''RSP_Amplitude'' of
            Inl e \<Rightarrow> (Inl e, w)
          | Inr amplitude \<Rightarrow>
             (Inr (dict_set (dict_set output ''RSP_Rate_Mean'' (np_mean rate))
                     ''RSP_Amplitude_Mean'' (np_mean amplitude)), w)))"
proof -
  from assms have r: "length (filter (str_contains ''RSP_Rate'') (map fst interval)) \<noteq> 0"
    and a: "length (filter (str_contains ''RSP_Amplitude'') (map fst interval)) \<noteq> 0"
    by linarith+
  show ?thesis
    unfolding rsp_intervalrelated_formatinput_def Let_def
    by (simp only: r a if_False option.case)
qed



text \<open>
  Claim C9. A recording of a collection in which a column name contains \<open>RSP_Rate\<close>
  and one contains \<open>RSP_Amplitude\<close>, but no column is named exactly \<open>RSP_Rate\<close>,
  passes both checks of the helper and fails at the read of \<open>interval["RSP_Rate"]\<close> with
  \<open>KeyError\<close>, and so does the call on a collection that starts with it. The recording
  with the columns \<open>RSP_Rate_Alt\<close> and \<open>RSP_Amplitude\<close> is one.
\<close>

theorem exact_read_fails_after_checks:
  assumes r: "1 \<le> length (filter (str_contains ''RSP_Rate'') (map fst interval))"
    and a: "1 \<le> length (filter (str_contains ''RSP_Amplitude'') (map fst interval))"
    and exact: "''RSP_Rate'' \<notin> set (map fst interval)"
  shows "rsp_intervalrelated_formatinput interval (Some output) w
           = (Inl (KeyError ''RSP_Rate''), w)
    \<and> rsp_intervalrelated rsp_rrv (Dict ((index, interval) # rest)) sampling_rate w
           = (Inl (KeyError ''RSP_Rate''), w)"
proof -
  have f: "rsp_intervalrelated_formatinput interval (Some out) w
           = (Inl (KeyError ''RSP_Rate''), w)" for out
    unfolding formatinput_checks_passed[OF r a] using exact by (simp add: getitem_def)
  then show ?thesis by (simp add: rsp_intervalrelated_def)
qed

theorem exact_read_fails_after_checks_witness:
  "1 \<le> length (filter (str_contains ''RSP_Rate'') (map fst alt_rate_recording))
   \<and> ''RSP_Rate'' \<notin> set (map fst alt_rate_recording)
   \<and> rsp_intervalrelated zero_rrv (Dict [(StrLabel ''A'', alt_rate_recording)]) 1000 fresh_world
           = (Inl (KeyError ''RSP_Rate''), fresh_world)"
  using exact_read_fails_after_checks[of alt_rate_recording "[]" fresh_world zero_rrv "StrLabel ''A''" "[]" 1000]
  by (simp add: alt_rate_recording_def)

subsection \<open>State between calls\<close>

text \<open>
  The helper changes the state only when its second argument is left out; the function
  always passes one.
\<close>

lemma formatinput_some_world:
  "snd (rsp_intervalrelated_formatinput interval (Some output) w) = w"
  by (simp add: rsp_intervalrelated_formatinput_def Let_def split: sum.splits)

lemma formatinput_some_result:
  "fst (rsp_intervalrelated_formatinput interval (Some output) w)
     = fst (rsp_intervalrelated_formatinput interval (Some output) w')"
  by (simp add: rsp_intervalrelated_formatinput_def Let_def split: sum.splits)

lemma loop_world: "snd (rsp_intervalrelated_loop d intervals w) = w"
proof (induction d arbitrary: intervals)
  case Nil
  then show ?case by simp
next
  case (Cons a d)
  obtain index interval where a: "a = (index, interval)" by (cases a)
  obtain r w1 where f: "rsp_intervalrelated_formatinput interval (Some []) w = (r, w1)"
    by (cases "rsp_intervalrelated_formatinput interval (Some []) w")
  with formatinput_some_world[of interval "[]" w] have w1: "w1 = w" by simp
  show ?case
    using f w1 Cons.IH by (cases r) (simp_all add: a)
qed

lemma loop_result:
  "fst (rsp_intervalrelated_loop d intervals w) = fst (rsp_intervalrelated_loop d intervals w')"
proof (induction d arbitrary: intervals)
  case Nil
  then show ?case by simp
next
  case (Cons a d)
  obtain index interval where a: "a = (index, interval)" by (cases a)
  obtain r where f: "rsp_intervalrelated_formatinput interval (Some []) w = (r, w)"
    using formatinput_some_world[of interval "[]" w]
    by (cases "rsp_intervalrelated_formatinput interval (Some []) w") simp
  obtain r' where f': "rsp_intervalrelated_formatinput interval (Some []) w' = (r', w')"
    using formatinput_some_world[of interval "[]" w']
    by (cases "rsp_intervalrelated_formatinput interval (Some []) w'") simp
  from formatinput_some_result[of interval "[]" w w'] f f' have r: "r' = r" by simp
  show ?case
    using f f' r Cons.IH by (cases r) (simp_all add: a)
qed

lemma dataframe_result:
  "fst (rsp_intervalrelated_dataframe rsp_rrv df sampling_rate w)
     = fst (rsp_intervalrelated_dataframe rsp_rrv df sampling_rate w')"
  by (simp add: rsp_intervalrelated_dataframe_def Let_def split: list.splits sum.splits)

lemma dataframe_default:
  "default_output (snd (rsp_intervalrelated_dataframe rsp_rrv df sampling_rate w))
     = default_output w"
  by (simp add: rsp_intervalrelated_dataframe_def Let_def split: list.splits sum.splits)

lemma result_any_world:
  "fst (rsp_intervalrelated rsp_rrv data sampling_rate w)
     = fst (rsp_intervalrelated rsp_rrv data sampling_rate w')"
proof (cases data)
  case (DataFrame df)
  then show ?thesis by (simp add: rsp_intervalrelated_def dataframe_result[of _ _ _ w w'])
next
  case (Dict d)
  obtain r where l: "rsp_intervalrelated_loop d [] w = (r, w)"
    using loop_world[of d "[]" w] by (cases "rsp_intervalrelated_loop d [] w") simp
  obtain r' where l': "rsp_intervalrelated_loop d [] w' = (r', w')"
    using loop_world[of d "[]" w'] by (cases "rsp_intervalrelated_loop d [] w'") simp
  from loop_result[of d "[]" w w'] l l' have "r' = r" by simp
  with l l' Dict show ?thesis by (cases r) (simp_all add: rsp_intervalrelated_def)
next
  case Other
  then show ?thesis by (simp add: rsp_intervalrelated_def)
qed

lemma default_kept:
  "default_output (snd (rsp_intervalrelated rsp_rrv data sampling_rate w)) = default_output w"
proof (cases data)
  case (DataFrame df)
  then show ?thesis by (simp add: rsp_intervalrelated_def dataframe_default)
next
  case (Dict d)
  obtain r where l: "rsp_intervalrelated_loop d [] w = (r, w)"
    using loop_world[of d "[]" w] by (cases "rsp_intervalrelated_loop d [] w") simp
  with Dict show ?thesis by (cases r) (simp_all add: rsp_intervalrelated_def)
next
  case Other
  then show ?thesis by (simp add: rsp_intervalrelated_def)
qed

text \<open>
  Claim C8. A second call on the same input, in the state the first call left, returns
  what the first call returned, for one recording, for a collection and for any other
  input, with \<open>rsp_rrv\<close> a function of its arguments. The default \<open>dict\<close> of the helper
  is the same object with the same content after a call as before: the function starts
  from \<open>intervals = {}\<close> and hands the helper a new \<open>dict\<close> each time.
\<close>

theorem repeated_call_same_output:
  "fst (rsp_intervalrelated rsp_rrv data sampling_rate
          (snd (rsp_intervalrelated rsp_rrv data sampling_rate w)))
     = fst (rsp_intervalrelated rsp_rrv data sampling_rate w)
   \<and> default_output (snd (rsp_intervalrelated rsp_rrv data sampling_rate w)) = default_output w"
  using result_any_world default_kept by blast

text \<open>
  The helper called without its second argument does keep what it wrote: the state that
  the theorem above shows the function never touches.
\<close>

lemma formatinput_default_is_shared:
  "default_output (snd (rsp_intervalrelated_formatinput example_recording None fresh_world))
     = [(''RSP_Rate_Mean'', Num 12), (''RSP_Amplitude_Mean'', Num (3/5))]"
  by (simp add: rsp_intervalrelated_formatinput_def example_recording_def fresh_world_def
      getitem_def column_values_def np_mean_def Let_def)

subsection \<open>Inputs of another type\<close>

text \<open>
  The two branches fail with a \<open>ValueError\<close>, a \<open>KeyError\<close> or the exception of
  \<open>rsp_rrv\<close>, never by themselves with an \<open>UnboundLocalError\<close>.
\<close>

lemma getitem_error: "getitem df name = Inl e \<Longrightarrow> e = KeyError name"
  by (simp add: getitem_def split: if_splits)

lemma copy_rrv_error: "copy_rrv rrv ks acc = Inl e \<Longrightarrow> \<exists>k. e = KeyError k"
  by (induction ks arbitrary: acc) (auto split: option.splits)

lemma formatinput_not_unbound:
  "fst (rsp_intervalrelated_formatinput interval output_arg w) \<noteq> Inl (UnboundLocalError n)"
  by (auto simp: rsp_intervalrelated_formatinput_def Let_def getitem_def split: sum.splits)

lemma loop_not_unbound:
  "fst (rsp_intervalrelated_loop d intervals w) \<noteq> Inl (UnboundLocalError n)"
proof (induction d arbitrary: intervals w)
  case Nil
  then show ?case by simp
next
  case (Cons a d)
  obtain index interval where a: "a = (index, interval)" by (cases a)
  obtain r w1 where f: "rsp_intervalrelated_formatinput interval (Some []) w = (r, w1)"
    by (cases "rsp_intervalrelated_formatinput interval (Some []) w")
  from formatinput_not_unbound[of interval "Some []" w n] f
  have r: "r \<noteq> Inl (UnboundLocalError n)" by simp
  show ?case
  proof (cases r)
    case (Inl e)
    with r f a show ?thesis by simp
  next
    case (Inr out)
    with f a Cons.IH show ?thesis by simp
  qed
qed

lemma dataframe_not_unbound:
  assumes "rsp_rrv df sampling_rate \<noteq> Inl (UnboundLocalError n)"
  shows "fst (rsp_intervalrelated_dataframe rsp_rrv df sampling_rate w)
           \<noteq> Inl (UnboundLocalError n)"
  using assms
  by (auto simp: rsp_intervalrelated_dataframe_def Let_def
      split: list.splits sum.splits dest: getitem_error copy_rrv_error)

text \<open>
  Claim C4, as stated, fails: the module has no check of the type of \<open>data\<close> and no
  error for it. For an input that is neither a \<open>DataFrame\<close> nor a \<open>dict\<close> the error is
  the \<open>UnboundLocalError\<close> that Python raises at \<open>return rsp_intervals\<close>, which is the
  error of no \<open>raise\<close> statement of the module.
\<close>

theorem other_input_error_is_not_raised:
  "fst (rsp_intervalrelated zero_rrv Other 1000 fresh_world)
      = Inl (UnboundLocalError ''rsp_intervals'')
   \<and> UnboundLocalError ''rsp_intervals'' \<notin> set raise_statements"
  by (simp add: rsp_intervalrelated_def raise_statements_def)

text \<open>
  Claim C4, amended. An input that is neither a \<open>DataFrame\<close> nor a \<open>dict\<close> makes the
  call fail without a result and without a call of \<open>rsp_rrv\<close>: no branch assigns
  \<open>rsp_intervals\<close>, and the \<open>return\<close> raises \<open>UnboundLocalError\<close> for it. That error
  tells such an input from every other: as long as \<open>rsp_rrv\<close> does not raise it itself,
  the call ends in it exactly when the input is neither a \<open>DataFrame\<close> nor a \<open>dict\<close>.
\<close>

theorem only_other_input_is_unbound:
  "rsp_intervalrelated rsp_rrv Other sampling_rate w =
     (Inl (UnboundLocalError ''rsp_intervals''), w)
   \<and> ((\<forall>df. rsp_rrv df sampling_rate \<noteq> Inl (UnboundLocalError ''rsp_intervals'')) \<longrightarrow>
        (fst (rsp_intervalrelated rsp_rrv data sampling_rate w)
            = Inl (UnboundLocalError ''rsp_intervals'')) = (data = Other))"
proof (intro conjI impI)
  show "rsp_intervalrelated rsp_rrv Other sampling_rate w =
     (Inl (UnboundLocalError ''rsp_intervals''), w)"
    by (simp add: rsp_intervalrelated_def)
next
  assume rrv: "\<forall>df. rsp_rrv df sampling_rate \<noteq> Inl (UnboundLocalError ''rsp_intervals'')"
  show "(fst (rsp_intervalrelated rsp_rrv data sampling_rate w)
            = Inl (UnboundLocalError ''rsp_intervals'')) = (data = Other)"
  proof (cases data)
    case (DataFrame df)
    from rrv have "rsp_rrv df sampling_rate \<noteq> Inl (UnboundLocalError ''rsp_intervals'')"
      by simp
    from dataframe_not_unbound[where rsp_rrv = rsp_rrv, OF this, of w] DataFrame
    show ?thesis by (simp add: rsp_intervalrelated_def)
  next
    case (Dict d)
    obtain r w1 where l: "rsp_intervalrelated_loop d [] w = (r, w1)"
      by (cases "rsp_intervalrelated_loop d [] w")
    with loop_not_unbound[of d "[]" w "''rsp_intervals''"]
    have "r \<noteq> Inl (UnboundLocalError ''rsp_intervals'')" by simp
    with l Dict show ?thesis
      by (cases r) (simp_all add: rsp_intervalrelated_def)
  next
    case Other
    then show ?thesis by (simp add: rsp_intervalrelated_def)
  qed
qed

theorem only_other_input_is_unbound_witness:
  "rsp_intervalrelated zero_rrv Other 1000 fresh_world =
     (Inl (UnboundLocalError ''rsp_intervals''), fresh_world)
   \<and> fst (rsp_intervalrelated zero_rrv (DataFrame example_recording) 1000 fresh_world)
        \<noteq> Inl (UnboundLocalError ''rsp_intervals'')
   \<and> fst (rsp_intervalrelated zero_rrv (Dict [(StrLabel ''A'', alt_rate_recording)]) 1000
             fresh_world)
        \<noteq> Inl (UnboundLocalError ''rsp_intervals'')"
  using only_other_input_is_unbound[of zero_rrv 1000 fresh_world "DataFrame example_recording"]
    only_other_input_is_unbound[of zero_rrv 1000 fresh_world "Dict [(StrLabel ''A'', alt_rate_recording)]"]
  by (simp add: zero_rrv_def)

end
